theory Spec2Isabelle
  imports Complex_Main
begin

section \<open>Python values used by the application\<close>

subsection \<open>Strings\<close>

text \<open>
  A Python \<open>str\<close> is a \<open>string\<close>: a list of characters, each read as a code point
  below 256. The character classes below are Python's on that range: \<open>str.isspace\<close>
  (used by \<open>str.strip\<close> and by \<open>\s\<close> of \<open>re\<close>), \<open>str.isdigit\<close> (the ten
  ASCII digits and the superscripts 1, 2, 3), \<open>\d\<close> of \<open>re\<close> (the ten ASCII digits)
  and \<open>str.lower\<close> (A to Z, and the accented capitals 0xC0 to 0xDE without 0xD7,
  each moved up by 32). Code points from 256 on are outside the model.
\<close>

definition isspace :: "char \<Rightarrow> bool" where
  "isspace c = (let n = (of_char c :: nat) in
     (9 \<le> n \<and> n \<le> 13) \<or> (28 \<le> n \<and> n \<le> 32) \<or> n = 133 \<or> n = 160)"

definition isdigit_char :: "char \<Rightarrow> bool" where
  "isdigit_char c = (let n = (of_char c :: nat) in
     (48 \<le> n \<and> n \<le> 57) \<or> n = 178 \<or> n = 179 \<or> n = 185)"

definition isdigit :: "string \<Rightarrow> bool" where
  \<comment> \<open>\<open>s.isdigit()\<close>: every character is a digit and there is at least one.\<close>
  "isdigit s = (s \<noteq> [] \<and> list_all isdigit_char s)"

definition is_decimal :: "char \<Rightarrow> bool" where
  \<comment> \<open>\<open>\d\<close>, and the digits \<open>float()\<close> reads.\<close>
  "is_decimal c = (let n = (of_char c :: nat) in 48 \<le> n \<and> n \<le> 57)"

definition isupper_char :: "char \<Rightarrow> bool" where
  "isupper_char c = (let n = (of_char c :: nat) in
     (65 \<le> n \<and> n \<le> 90) \<or> (192 \<le> n \<and> n \<le> 222 \<and> n \<noteq> 215))"

definition lower_char :: "char \<Rightarrow> char" where
  "lower_char c = (if isupper_char c then char_of ((of_char c :: nat) + 32) else c)"

definition lower :: "string \<Rightarrow> string" where
  "lower s = map lower_char s"

definition strip :: "string \<Rightarrow> string" where
  "strip s = rev (dropWhile isspace (rev (dropWhile isspace s)))"

definition startswith :: "string \<Rightarrow> string \<Rightarrow> bool" where
  \<comment> \<open>\<open>s.startswith(p)\<close>\<close>
  "startswith s p = (take (length p) s = p)"

fun split_on :: "char \<Rightarrow> string \<Rightarrow> string list" where
  \<comment> \<open>\<open>s.split(sep)\<close> for a one-character separator: never an empty list.\<close>
  "split_on sep [] = [[]]"
| "split_on sep (c # cs) =
     (if c = sep then [] # split_on sep cs
      else (case split_on sep cs of [] \<Rightarrow> [[c]] | l # ls \<Rightarrow> (c # l) # ls))"

fun str_replace :: "string \<Rightarrow> string \<Rightarrow> string \<Rightarrow> string" where
  \<comment> \<open>\<open>s.replace(old, new)\<close> for a non-empty \<open>old\<close>: every occurrence, left to right,
      without overlap. The source only calls it with the literals \<open>'Yield:'\<close> and \<open>'Price:'\<close>.\<close>
  "str_replace old new [] = []"
| "str_replace old new (c # cs) =
     (if old \<noteq> [] \<and> startswith (c # cs) old
      then new @ str_replace old new (drop (length old - 1) cs)
      else c # str_replace old new cs)"

definition newline :: char where
  "newline = CHR 0x0A"

subsection \<open>Floats\<close>

text \<open>
  A Python \<open>float\<close> is a real number or one of the three special values that
  \<open>float()\<close> can return and that arithmetic propagates. Rounding to 53 bits, overflow
  and the sign of zero are not modelled: a finite float stands for the real it approximates.
\<close>

datatype pyfloat = Fin real | PInf | NInf | NaN

fun fmul :: "pyfloat \<Rightarrow> pyfloat \<Rightarrow> pyfloat" where
  "fmul NaN _ = NaN"
| "fmul _ NaN = NaN"
| "fmul (Fin a) (Fin b) = Fin (a * b)"
| "fmul (Fin a) PInf = (if a = 0 then NaN else if 0 < a then PInf else NInf)"
| "fmul (Fin a) NInf = (if a = 0 then NaN else if 0 < a then NInf else PInf)"
| "fmul PInf (Fin b) = (if b = 0 then NaN else if 0 < b then PInf else NInf)"
| "fmul NInf (Fin b) = (if b = 0 then NaN else if 0 < b then NInf else PInf)"
| "fmul PInf PInf = PInf"
| "fmul PInf NInf = NInf"
| "fmul NInf PInf = NInf"
| "fmul NInf NInf = PInf"

text \<open>
  \<open>float(s)\<close> on a string, after the grammar of the language reference: surrounding
  white space is dropped, then an optional sign, then \<open>inf\<close>, \<open>infinity\<close> or \<open>nan\<close>
  in any letter case, or a decimal number with an optional fraction and exponent, where
  single underscores may separate digits. \<open>None\<close> is \<open>ValueError\<close>.
\<close>

definition float_isspace :: "char \<Rightarrow> bool" where
  \<comment> \<open>the white space \<open>float()\<close> drops: unlike \<open>strip\<close>, not 0x1C to 0x1F\<close>
  "float_isspace c = (let n = (of_char c :: nat) in
     (9 \<le> n \<and> n \<le> 13) \<or> n = 32 \<or> n = 133 \<or> n = 160)"

fun digitpart :: "string \<Rightarrow> bool" where
  "digitpart [] = False"
| "digitpart [c] = is_decimal c"
| "digitpart (c # d # cs) =
     (is_decimal c \<and> (if d = CHR ''_'' then digitpart cs else digitpart (d # cs)))"

definition digits_of :: "string \<Rightarrow> string" where
  "digits_of s = filter (\<lambda>c. c \<noteq> CHR ''_'') s"

definition digits_val :: "string \<Rightarrow> nat" where
  "digits_val s = foldl (\<lambda>a c. 10 * a + ((of_char c :: nat) - 48)) 0 (digits_of s)"

definition split_first :: "(char \<Rightarrow> bool) \<Rightarrow> string \<Rightarrow> string \<times> string option" where
  \<comment> \<open>the text before the first character satisfying \<open>p\<close>, and the text after it if there is one\<close>
  "split_first p s = (takeWhile (\<lambda>c. \<not> p c) s,
     (case dropWhile (\<lambda>c. \<not> p c) s of [] \<Rightarrow> None | _ # r \<Rightarrow> Some r))"

definition take_sign :: "string \<Rightarrow> bool \<times> string" where
  "take_sign s = (case s of [] \<Rightarrow> (False, [])
     | c # cs \<Rightarrow> if c = CHR ''-'' then (True, cs) else if c = CHR ''+'' then (False, cs) else (False, s))"

definition float_exponent :: "string option \<Rightarrow> int option" where
  "float_exponent ex = (case ex of None \<Rightarrow> Some 0
     | Some e \<Rightarrow> (let (neg, ds) = take_sign e in
         if digitpart ds then Some (if neg then - int (digits_val ds) else int (digits_val ds))
         else None))"

definition float_mantissa :: "string \<Rightarrow> real option" where
  "float_mantissa m = (case split_first (\<lambda>c. c = CHR ''.'') m of
       (ip, None) \<Rightarrow> if digitpart ip then Some (real (digits_val ip)) else None
     | (ip, Some fp) \<Rightarrow>
         if (ip = [] \<or> digitpart ip) \<and> (fp = [] \<or> digitpart fp) \<and> \<not> (ip = [] \<and> fp = [])
         then Some (real (digits_val ip) + real (digits_val fp) / 10 ^ length (digits_of fp))
         else None)"

definition float_number :: "string \<Rightarrow> real option" where
  "float_number s = (case split_first (\<lambda>c. c = CHR ''e'' \<or> c = CHR ''E'') s of
     (m, ex) \<Rightarrow> (case (float_mantissa m, float_exponent ex) of
         (Some v, Some e) \<Rightarrow> Some (if 0 \<le> e then v * 10 ^ nat e else v / 10 ^ nat (- e))
       | _ \<Rightarrow> None))"

definition py_float :: "string \<Rightarrow> pyfloat option" where
  "py_float s = (let t = rev (dropWhile float_isspace (rev (dropWhile float_isspace s)));
                     (neg, r) = take_sign t;
                     l = lower r
     in if l = ''inf'' \<or> l = ''infinity'' then Some (if neg then NInf else PInf)
        else if l = ''nan'' then Some NaN
        else (case float_number r of None \<Rightarrow> None
                | Some v \<Rightarrow> Some (Fin (if neg then - v else v))))"

section \<open>yield_prediction.py: the yield advisor\<close>

subsection \<open>The static yield table\<close>

definition static_yields_hectare :: "(string \<times> real) list" where
  "static_yields_hectare =
    [(''rice'', 2873), (''wheat'', 3615), (''jowar'', 1175), (''bajra'', 1449),
     (''maize'', 3321), (''tur'', 831), (''gram'', 1224), (''groundnut'', 2179),
     (''rapeseed and mustard'', 1443), (''sugarcane'', 79000), (''cotton'', 436),
     (''jute'', 2795), (''mesta'', 2056), (''potato'', 24000), (''tea'', 2042),
     (''coffee'', 780), (''rubber'', 973)]"

definition static_yields :: "(string \<times> pyfloat) list" where
  \<comment> \<open>\<open>{crop: yield_value/2.47105 for crop, yield_value in self.static_yields.items()}\<close>\<close>
  "static_yields = map (\<lambda>(crop, yield_value). (crop, Fin (yield_value / 2.47105))) static_yields_hectare"

subsection \<open>The language model and the session\<close>

text \<open>
  The two prompts are fixed templates with the crop name spliced in; a prompt is
  modelled by the name of its template and the crop. A loaded model is a function from the
  prompt to what the call and the extraction \<open>response['choices'][0]['text']\<close> give:
  the generated text, or an exception. The model samples its answers, so the function
  stands for the outcome of the one invocation that a call of \<open>get_yield_prediction\<close>
  makes; nothing is assumed about a second invocation with the same prompt.
  \<open>st.session_state\<close> holds the model under the key
  \<open>llm\<close>: \<open>None\<close> is a missing key, \<open>Some None\<close> the value \<open>None\<close> that a failed load
  leaves there. The field \<open>calls\<close> is a record of the advisor's method entries and of the
  model invocations, in order; the source keeps no such record, the model keeps it so that
  statements about what is invoked can be made.
\<close>

datatype prompt = PricePrompt string | CombinedPrompt string

datatype exn = AttributeError | ZeroDivisionError | Raised string

definition str_exn :: "exn \<Rightarrow> string" where
  \<comment> \<open>\<open>str(e)\<close>. \<open>AttributeError\<close> is what reading \<open>st.session_state.llm\<close> raises when
      the key is missing; its message, which the library words, is shortened here.\<close>
  "str_exn e = (case e of Raised m \<Rightarrow> m
     | ZeroDivisionError \<Rightarrow> ''float division by zero''
     | AttributeError \<Rightarrow> ''st.session_state has no attribute llm'')"

type_synonym llm = "prompt \<Rightarrow> exn + string"

datatype call = Enter_get_price_from_llm string | Enter_get_recommendations string
  | Llm_invoked prompt

record session_state =
  llm :: "llm option option"
  calls :: "call list"

definition initialize_llm :: "exn + llm \<Rightarrow> session_state \<Rightarrow> session_state" where
  \<comment> \<open>The first argument is what the constructor \<open>Llama(...)\<close> does when it is called.\<close>
  "initialize_llm ctor st = (case llm st of
       None \<Rightarrow> (case ctor of Inr m \<Rightarrow> st\<lparr>llm := Some (Some m)\<rparr>
                            | Inl e \<Rightarrow> st\<lparr>llm := Some None\<rparr>)
     | Some _ \<Rightarrow> st)"

subsection \<open>Parsing the model's answers\<close>

fun parse_lines :: "string list \<Rightarrow> pyfloat option \<times> pyfloat option
    \<Rightarrow> (pyfloat option \<times> pyfloat option) option" where
  \<comment> \<open>the loop of \<open>parse_response\<close>; \<open>None\<close> when \<open>float()\<close> raises\<close>
  "parse_lines [] (yield_value, price_value) = Some (yield_value, price_value)"
| "parse_lines (line # lines) (yield_value, price_value) =
     (if startswith line ''Yield:'' then
        (case py_float (strip (str_replace ''Yield:'' '''' line)) of
           None \<Rightarrow> None
         | Some v \<Rightarrow> parse_lines lines (Some v, price_value))
      else if startswith line ''Price:'' then
        (case py_float (strip (str_replace ''Price:'' '''' line)) of
           None \<Rightarrow> None
         | Some v \<Rightarrow> parse_lines lines (yield_value, Some v))
      else parse_lines lines (yield_value, price_value))"

definition parse_response :: "string \<Rightarrow> pyfloat option \<times> pyfloat option" where
  "parse_response response =
     (case parse_lines (split_on newline (strip response)) (None, None) of
        None \<Rightarrow> (None, None)
      | Some r \<Rightarrow> r)"

text \<open>
  \<open>re.search(r'Price:\s*(\d+(?:\.\d+)?)', text)\<close>: the leftmost position where
  \<open>Price:\<close>, any white space and at least one digit follow; the group is the longest
  run of digits there, with a fraction when a dot and a digit come next.
\<close>

definition match_price_at :: "string \<Rightarrow> string option" where
  "match_price_at s =
     (if startswith s ''Price:'' then
        (let r = dropWhile isspace (drop 6 s);
             ds = takeWhile is_decimal r
         in if ds = [] then None
            else (case dropWhile is_decimal r of
                    c # r' \<Rightarrow> if c = CHR ''.'' \<and> takeWhile is_decimal r' \<noteq> []
                              then Some (ds @ c # takeWhile is_decimal r')
                              else Some ds
                  | [] \<Rightarrow> Some ds))
      else None)"

fun search_price :: "string \<Rightarrow> string option" where
  "search_price [] = match_price_at []"
| "search_price (c # cs) =
     (case match_price_at (c # cs) of Some g \<Rightarrow> Some g | None \<Rightarrow> search_price cs)"

subsection \<open>The advisor's methods\<close>

definition enter :: "call \<Rightarrow> session_state \<Rightarrow> session_state" where
  "enter c st = st\<lparr>calls := calls st @ [c]\<rparr>"

definition ask_price :: "llm \<Rightarrow> session_state \<Rightarrow> string \<Rightarrow> pyfloat option \<times> session_state" where
  \<comment> \<open>the \<open>try\<close> block of \<open>get_price_from_llm\<close>: every exception gives \<open>None\<close>\<close>
  "ask_price m st crop =
     (let st' = enter (Llm_invoked (PricePrompt crop)) st in
      case m (PricePrompt crop) of
        Inl e \<Rightarrow> (None, st')
      | Inr text \<Rightarrow>
          (case search_price (strip text) of
             None \<Rightarrow> (None, st')
           | Some g \<Rightarrow> (py_float g, st')))"

definition get_price_from_llm ::
    "exn + llm \<Rightarrow> session_state \<Rightarrow> string \<Rightarrow> (exn + pyfloat option) \<times> session_state" where
  "get_price_from_llm ctor st0 crop =
     (let st = enter (Enter_get_price_from_llm crop) st0 in
      case llm st of
        None \<Rightarrow> (Inl AttributeError, st)
      | Some (Some m) \<Rightarrow> (case ask_price m st crop of (r, st') \<Rightarrow> (Inr r, st'))
      | Some None \<Rightarrow>
          (let st1 = initialize_llm ctor st in
           case llm st1 of
             None \<Rightarrow> (Inl AttributeError, st1)
           | Some None \<Rightarrow> (Inr None, st1)
           | Some (Some m) \<Rightarrow> (case ask_price m st1 crop of (r, st') \<Rightarrow> (Inr r, st'))))"

definition ask_both ::
    "llm \<Rightarrow> session_state \<Rightarrow> string \<Rightarrow> (pyfloat option \<times> pyfloat option) \<times> session_state" where
  \<comment> \<open>the \<open>try\<close> block of \<open>get_recommendations\<close>\<close>
  "ask_both m st crop =
     (let st' = enter (Llm_invoked (CombinedPrompt crop)) st in
      case m (CombinedPrompt crop) of
        Inl e \<Rightarrow> ((None, None), st')
      | Inr text \<Rightarrow> (parse_response (strip text), st'))"

definition get_recommendations ::
    "exn + llm \<Rightarrow> session_state \<Rightarrow> string
      \<Rightarrow> (exn + pyfloat option \<times> pyfloat option) \<times> session_state" where
  "get_recommendations ctor st0 crop =
     (let st = enter (Enter_get_recommendations crop) st0 in
      case llm st of
        None \<Rightarrow> (Inl AttributeError, st)
      | Some (Some m) \<Rightarrow> (case ask_both m st crop of (r, st') \<Rightarrow> (Inr r, st'))
      | Some None \<Rightarrow>
          (let st1 = initialize_llm ctor st in
           case llm st1 of
             None \<Rightarrow> (Inl AttributeError, st1)
           | Some None \<Rightarrow> (Inr (None, None), st1)
           | Some (Some m) \<Rightarrow> (case ask_both m st1 crop of (r, st') \<Rightarrow> (Inr r, st'))))"

text \<open>The dictionaries that \<open>get_yield_prediction\<close> returns, in the order of their keys.\<close>

datatype val = VStr string | VFloat pyfloat

type_synonym prediction = "(string \<times> val) list"

definition error_prediction :: "string \<Rightarrow> pyfloat \<Rightarrow> string \<Rightarrow> prediction" where
  "error_prediction crop acres msg =
     [(''crop'', VStr crop), (''acres'', VFloat acres), (''error'', VStr msg)]"

definition full_prediction :: "string \<Rightarrow> pyfloat \<Rightarrow> pyfloat \<Rightarrow> pyfloat \<Rightarrow> prediction" where
  "full_prediction crop acres yield_per_acre price_per_kg =
     (let expected_yield = fmul acres yield_per_acre;
          total_income = fmul expected_yield price_per_kg
      in [(''crop'', VStr crop), (''acres'', VFloat acres),
          (''yield_per_acre'', VFloat yield_per_acre),
          (''expected_yield'', VFloat expected_yield),
          (''price_per_kg'', VFloat price_per_kg),
          (''total_income'', VFloat total_income),
          (''unit'', VStr ''kg'')])"

definition normalize :: "string \<Rightarrow> string" where
  \<comment> \<open>\<open>crop.lower().strip()\<close>\<close>
  "normalize crop = strip (lower crop)"

definition get_yield_prediction ::
    "exn + llm \<Rightarrow> session_state \<Rightarrow> string \<Rightarrow> pyfloat \<Rightarrow> prediction option \<times> session_state" where
  "get_yield_prediction ctor st crop0 acres =
     (if crop0 = [] then (None, st)
      else
        (let crop = normalize crop0 in
         case map_of static_yields crop of
           Some yield_per_acre \<Rightarrow>
             (case get_price_from_llm ctor st crop of
                (Inl e, st') \<Rightarrow> (Some (error_prediction crop acres (str_exn e)), st')
              | (Inr None, st') \<Rightarrow>
                  (Some (error_prediction crop acres ''Could not determine price''), st')
              | (Inr (Some price_per_kg), st') \<Rightarrow>
                  (Some (full_prediction crop acres yield_per_acre price_per_kg), st'))
         | None \<Rightarrow>
             (case get_recommendations ctor st crop of
                (Inl e, st') \<Rightarrow> (Some (error_prediction crop acres (str_exn e)), st')
              | (Inr (Some yield_per_acre, Some price_per_kg), st') \<Rightarrow>
                  (Some (full_prediction crop acres yield_per_acre price_per_kg), st')
              | (Inr _, st') \<Rightarrow>
                  (Some (error_prediction crop acres ''Could not determine yield or price''), st'))))"

section \<open>final.py: resolving a location\<close>

text \<open>
  Both resolvers are wrapped in a cache by \<open>st.cache_data\<close>; the definitions below are
  the bodies, which run when the cache has no entry for the argument. The messages of
  \<open>st.error\<close> are not part of the returned value and are left out.
\<close>

subsection \<open>get_location_from_ip\<close>

text \<open>
  A decoded JSON document, which is also the type of the three returned values: \<open>JNull\<close>
  is Python's \<open>None\<close>. A dictionary is the list of its items.
\<close>

datatype json = JNull | JBool bool | JNum real | JStr string
  | JArr "json list" | JObj "(string \<times> json) list"

datatype http_outcome =
    Transport_error exn
  | Response int "exn + json"
    \<comment> \<open>\<open>response.status_code\<close> and what \<open>response.json()\<close> does\<close>

definition dict_get :: "(string \<times> json) list \<Rightarrow> string \<Rightarrow> json \<Rightarrow> json" where
  \<comment> \<open>\<open>data.get(key, default)\<close>\<close>
  "dict_get data key dflt = (case map_of data key of None \<Rightarrow> dflt | Some v \<Rightarrow> v)"

definition format_value :: "(json \<Rightarrow> string) \<Rightarrow> json \<Rightarrow> string" where
  \<comment> \<open>a value inside an f-string: \<open>str()\<close> of it. What Python prints for numbers and
      containers is the parameter \<open>other\<close>.\<close>
  "format_value other v = (case v of
       JStr s \<Rightarrow> s
     | JNull \<Rightarrow> ''None''
     | JBool b \<Rightarrow> (if b then ''True'' else ''False'')
     | _ \<Rightarrow> other v)"

definition unresolved :: "json \<times> json \<times> json" where
  "unresolved = (JNull, JNull, JNull)"

definition get_location_from_ip :: "(json \<Rightarrow> string) \<Rightarrow> http_outcome \<Rightarrow> json \<times> json \<times> json" where
  "get_location_from_ip other outcome = (case outcome of
       Transport_error e \<Rightarrow> unresolved
     | Response status_code body \<Rightarrow>
         if status_code = 200 then
           (case body of
              Inl e \<Rightarrow> unresolved
            | Inr (JObj data) \<Rightarrow>
                (dict_get data ''lat'' JNull,
                 dict_get data ''lon'' JNull,
                 JStr (format_value other (dict_get data ''city'' (JStr [])) @ '', '' @
                       format_value other (dict_get data ''regionName'' (JStr [])) @ '', '' @
                       format_value other (dict_get data ''country'' (JStr []))))
            | Inr _ \<Rightarrow> unresolved)
         else unresolved)"

subsection \<open>geocode_location\<close>

datatype geo_outcome =
    Geo_raised exn
  | Geo_none
  | Geo_found real real string
    \<comment> \<open>\<open>location.latitude\<close>, \<open>location.longitude\<close>, \<open>location.address\<close>\<close>

definition geocode_query :: "string \<Rightarrow> string" where
  "geocode_query location_input =
     (if isdigit location_input \<and> length location_input = 6
      then location_input @ '', India''
      else location_input)"

definition geocode_location ::
    "(string \<Rightarrow> geo_outcome) \<Rightarrow> string
      \<Rightarrow> (real option \<times> real option \<times> string option) \<times> string list" where
  \<comment> \<open>The first argument is the service behind \<open>geolocator.geocode\<close>. The second
      component of the result lists the queries sent to it.\<close>
  "geocode_location geocode location_input =
     (let query = geocode_query location_input in
      (case geocode query of
         Geo_found latitude longitude address \<Rightarrow> (Some latitude, Some longitude, Some address)
       | Geo_none \<Rightarrow> (None, None, None)
       | Geo_raised e \<Rightarrow> (None, None, None),
       [query]))"

section \<open>profit_dashboard.py: the profit dashboard\<close>

record expense =
  category :: string
  description :: string
  amount :: real
  date :: string

text \<open>
  The two entries of \<open>st.session_state\<close> that the dashboard owns; \<open>None\<close> is a missing key.
\<close>

record dashboard_state =
  expenses :: "expense list option"
  expense_categories :: "string list option"

text \<open>
  What the widgets return during one run of the script: the revenue field (the second
  one, whose value replaces that of the first in \<open>total_yield\<close>), the new category
  field, the three fields of each form row, the clock read when a row is stored, and the
  two buttons. Amounts are the finite floats of a number field, modelled as reals.
\<close>

record inputs =
  total_yield :: real
  new_category :: string
  row_category :: "nat \<Rightarrow> string"
  row_description :: "nat \<Rightarrow> string"
  row_amount :: "nat \<Rightarrow> real"
  row_now :: "nat \<Rightarrow> string"
  submitted :: bool
  clear_clicked :: bool

datatype message =
    Added_category string
  | Added_expenses nat
  | No_expenses_yet

record metrics =
  total_revenue :: real
  total_expenses :: real
  profit :: real
  profit_margin :: real

definition default_categories :: "string list" where
  "default_categories = [''Seeds'', ''Fertilizers'', ''Pesticides'', ''Labor'',
     ''Equipment'', ''Irrigation'', ''Transportation'', ''Others'', ''Cleaning'']"

definition initialize_dashboard :: "dashboard_state \<Rightarrow> dashboard_state" where
  "initialize_dashboard st =
     st\<lparr>expenses := Some (case expenses st of None \<Rightarrow> [] | Some es \<Rightarrow> es),
        expense_categories :=
          Some (case expense_categories st of None \<Rightarrow> default_categories | Some cs \<Rightarrow> cs)\<rparr>"

definition the_expenses :: "dashboard_state \<Rightarrow> expense list" where
  "the_expenses st = (case expenses st of None \<Rightarrow> [] | Some es \<Rightarrow> es)"

definition the_categories :: "dashboard_state \<Rightarrow> string list" where
  "the_categories st = (case expense_categories st of None \<Rightarrow> [] | Some cs \<Rightarrow> cs)"

definition add_category :: "inputs \<Rightarrow> dashboard_state \<Rightarrow> dashboard_state \<times> message list" where
  "add_category inp st =
     (if new_category inp \<noteq> [] \<and> new_category inp \<notin> set (the_categories st)
      then (st\<lparr>expense_categories := Some (the_categories st @ [new_category inp])\<rparr>,
            [Added_category (new_category inp)])
      else (st, []))"

definition row_expense :: "inputs \<Rightarrow> nat \<Rightarrow> expense" where
  "row_expense inp i = \<lparr>category = row_category inp i, description = row_description inp i,
     amount = row_amount inp i, date = row_now inp i\<rparr>"

fun collect_rows :: "inputs \<Rightarrow> nat list \<Rightarrow> expense list \<Rightarrow> expense list" where
  \<comment> \<open>the loop over the form's rows, appending to \<open>temp_expenses\<close>\<close>
  "collect_rows inp [] temp_expenses = temp_expenses"
| "collect_rows inp (i # rest) temp_expenses =
     (if row_category inp i \<noteq> [] \<and> row_amount inp i > 0
      then collect_rows inp rest (temp_expenses @ [row_expense inp i])
      else collect_rows inp rest temp_expenses)"

definition expense_form :: "inputs \<Rightarrow> dashboard_state \<Rightarrow> dashboard_state \<times> message list" where
  "expense_form inp st =
     (let temp_expenses = collect_rows inp [0..<5] [] in
      if submitted inp \<and> temp_expenses \<noteq> []
      then (st\<lparr>expenses := Some (the_expenses st @ temp_expenses)\<rparr>,
            [Added_expenses (length temp_expenses)])
      else (st, []))"

text \<open>
  Division is the one operation of the analytics that can fail. It is modelled as failing
  on a zero divisor, as Python's own floats do.
\<close>

definition truediv :: "real \<Rightarrow> real \<Rightarrow> exn + real" where
  "truediv a b = (if b = 0 then Inl ZeroDivisionError else Inr (a / b))"

definition compute_profit_margin :: "real \<Rightarrow> real \<Rightarrow> exn + real" where
  \<comment> \<open>\<open>(profit / total_yield * 100) if total_yield > 0 else 0\<close>\<close>
  "compute_profit_margin prof revenue =
     (if revenue > 0
      then (case truediv prof revenue of Inl e \<Rightarrow> Inl e | Inr q \<Rightarrow> Inr (q * 100))
      else Inr 0)"

definition compute_metrics :: "expense list \<Rightarrow> real \<Rightarrow> exn + metrics" where
  "compute_metrics df_expenses revenue =
     (let total = sum_list (map amount df_expenses);
          prof = revenue - total
      in case compute_profit_margin prof revenue of
           Inl e \<Rightarrow> Inl e
         | Inr margin \<Rightarrow> Inr \<lparr>total_revenue = revenue, total_expenses = total,
                              profit = prof, profit_margin = margin\<rparr>)"

definition render_profit_dashboard_tab ::
    "inputs \<Rightarrow> dashboard_state \<Rightarrow> dashboard_state \<times> message list \<times> (exn + metrics) option" where
  \<comment> \<open>One run of the script: the state it leaves, the notices it shows and the metrics
      it displays (or the exception that ends the run).\<close>
  "render_profit_dashboard_tab inp st0 =
     (let st1 = initialize_dashboard st0;
          (st2, m2) = add_category inp st1;
          (st3, m3) = expense_form inp st2
      in if the_expenses st3 \<noteq> [] then
           (case compute_metrics (the_expenses st3) (total_yield inp) of
              Inl e \<Rightarrow> (st3, m2 @ m3, Some (Inl e))
            | Inr ms \<Rightarrow>
                (if clear_clicked inp then st3\<lparr>expenses := Some []\<rparr> else st3,
                 m2 @ m3, Some (Inr ms)))
         else (st3, m2 @ m3 @ [No_expenses_yet], None))"

definition fresh_session :: dashboard_state where
  "fresh_session = \<lparr>expenses = None, expense_categories = None\<rparr>"

fun run_session :: "inputs list \<Rightarrow> dashboard_state \<Rightarrow> dashboard_state" where
  \<comment> \<open>the session state after a sequence of runs of the script\<close>
  "run_session [] st = st"
| "run_session (inp # inps) st = run_session inps (fst (render_profit_dashboard_tab inp st))"

section \<open>Concrete sessions used in the examples\<close>

definition llm_replying :: "string \<Rightarrow> llm" where
  \<comment> \<open>a loaded model that answers every prompt with the same text\<close>
  "llm_replying reply p = Inr reply"

definition load_failure :: "exn + llm" where
  \<comment> \<open>the constructor \<open>Llama(...)\<close> raising\<close>
  "load_failure = Inl (Raised ''model file not found'')"

definition session_replying :: "string \<Rightarrow> session_state" where
  "session_replying reply = \<lparr>llm = Some (Some (llm_replying reply)), calls = []\<rparr>"


definition str_unmodelled :: "json \<Rightarrow> string" where
  "str_unmodelled v = ''?''"

definition example_geocoder :: "string \<Rightarrow> geo_outcome" where
  \<comment> \<open>a geocoding service that knows two queries\<close>
  "example_geocoder query =
     (if query = ''110001, India''
      then Geo_found 28.63 77.22 ''New Delhi, Delhi, 110001, India''
      else if query = ''Pune'' then Geo_found 18.52 73.86 ''Pune, Maharashtra, India''
      else Geo_none)"

definition two_line_reply :: string where
  \<comment> \<open>an answer in the format the combined prompt asks for\<close>
  "two_line_reply = ''Yield: 100'' @ [newline] @ ''Price: 5''"

definition example_inputs :: inputs where
  \<comment> \<open>a submitted form: three complete rows, one row without a category, one with amount 0\<close>
  "example_inputs = \<lparr>total_yield = 1000, new_category = [],
     row_category = (\<lambda>i. [''Seeds'', [], ''Labor'', ''Labor'', ''Others''] ! i),
     row_description = (\<lambda>i. []),
     row_amount = (\<lambda>i. [100, 40, 0, 200, 50] ! i),
     row_now = (\<lambda>i. ''2024-01-01 10:00:00''),
     submitted = True, clear_clicked = False\<rparr>"

definition blank_inputs :: inputs where
  \<comment> \<open>a submitted form in which no row has both a category and an amount\<close>
  "blank_inputs = \<lparr>total_yield = 1000, new_category = [],
     row_category = (\<lambda>i. if i = 0 then ''Seeds'' else []),
     row_description = (\<lambda>i. []),
     row_amount = (\<lambda>i. if i = 0 then 0 else if i = 1 then 0 else 25),
     row_now = (\<lambda>i. ''2024-01-01 10:00:00''),
     submitted = True, clear_clicked = False\<rparr>"

section \<open>Properties of the string operations\<close>

lemma dropWhile_idem: "dropWhile P (dropWhile P xs) = dropWhile P xs"
  by (induction xs) auto

lemma dropWhile_head: "dropWhile P xs = [] \<or> \<not> P (hd (dropWhile P xs))"
  by (metis hd_dropWhile)

lemma dropWhile_rev_head:
  assumes "xs = [] \<or> \<not> P (hd xs)"
  shows "dropWhile P (rev (dropWhile P (rev xs))) = rev (dropWhile P (rev xs))"
proof (cases "dropWhile P (rev xs) = []")
  case True
  show ?thesis unfolding True by simp
next
  case False
  have "rev xs = takeWhile P (rev xs) @ dropWhile P (rev xs)" by simp
  then have "xs = rev (dropWhile P (rev xs)) @ rev (takeWhile P (rev xs))"
    by (metis rev_append rev_rev_ident)
  then have "hd xs = hd (rev (dropWhile P (rev xs)))"
    using False by (metis hd_append2 rev_is_Nil_conv)
  moreover have "xs \<noteq> []" using False by auto
  ultimately have "\<not> P (hd (rev (dropWhile P (rev xs))))" using assms by simp
  then show ?thesis using False
    by (cases "rev (dropWhile P (rev xs))") auto
qed

lemma strip_idem: "strip (strip s) = strip s"
proof -
  let ?t = "dropWhile isspace s"
  have a: "dropWhile isspace (rev (dropWhile isspace (rev ?t))) = rev (dropWhile isspace (rev ?t))"
    by (rule dropWhile_rev_head) (rule dropWhile_head)
  show ?thesis
    unfolding strip_def a by (simp add: dropWhile_idem)
qed

lemma of_char_lower_upper:
  "isupper_char c \<Longrightarrow> (of_char (lower_char c) :: nat) = of_char c + 32"
  by (auto simp: lower_char_def isupper_char_def Let_def)

lemma not_upper_lower: "\<not> isupper_char (lower_char c)"
proof (cases "isupper_char c")
  case True
  from of_char_lower_upper [OF True] True show ?thesis
    by (auto simp: isupper_char_def Let_def)
next
  case False
  then show ?thesis by (simp add: lower_char_def)
qed

lemma lower_char_idem: "lower_char (lower_char c) = lower_char c"
  using not_upper_lower [of c] by (simp add: lower_char_def [of "lower_char c"])

lemma isspace_lower_char: "isspace (lower_char c) = isspace c"
proof (cases "isupper_char c")
  case True
  from of_char_lower_upper [OF True] True show ?thesis
    by (auto simp: isupper_char_def isspace_def Let_def)
next
  case False
  then show ?thesis by (simp add: lower_char_def)
qed

lemma lower_idem: "lower (lower s) = lower s"
  by (simp add: lower_def lower_char_idem)

lemma lower_dropWhile: "lower (dropWhile isspace s) = dropWhile isspace (lower s)"
  by (induction s) (auto simp: lower_def isspace_lower_char)

lemma lower_rev: "lower (rev s) = rev (lower s)"
  by (simp add: lower_def rev_map)

lemma lower_strip: "lower (strip s) = strip (lower s)"
  by (simp add: strip_def lower_rev lower_dropWhile)

lemma normalize_idem: "normalize (normalize s) = normalize s"
  by (simp add: normalize_def lower_strip lower_idem strip_idem)

lemma normalize_Nil: "normalize [] = []"
  by (simp add: normalize_def strip_def lower_def)

section \<open>Properties of the yield advisor\<close>

subsection \<open>The record of calls\<close>

lemma llm_enter [simp]: "llm (enter c st) = llm st"
  by (simp add: enter_def)

lemma calls_enter [simp]: "calls (enter c st) = calls st @ [c]"
  by (simp add: enter_def)

lemma initialize_llm_present: "llm st \<noteq> None \<Longrightarrow> initialize_llm ctor st = st"
  by (auto simp: initialize_llm_def split: option.splits)

lemma calls_ask_price:
  "calls (snd (ask_price m st c)) = calls st @ [Llm_invoked (PricePrompt c)]"
  by (simp add: ask_price_def Let_def split: sum.splits option.splits)

lemma calls_ask_both:
  "calls (snd (ask_both m st c)) = calls st @ [Llm_invoked (CombinedPrompt c)]"
  by (simp add: ask_both_def Let_def split: sum.splits)

lemma calls_get_price_from_llm:
  "calls (snd (get_price_from_llm ctor st c)) =
     calls st @ Enter_get_price_from_llm c #
       (case llm st of Some (Some m) \<Rightarrow> [Llm_invoked (PricePrompt c)] | _ \<Rightarrow> [])"
  by (simp add: get_price_from_llm_def Let_def initialize_llm_present calls_ask_price
      split_beta split: option.splits)

lemma calls_get_recommendations:
  "calls (snd (get_recommendations ctor st c)) =
     calls st @ Enter_get_recommendations c #
       (case llm st of Some (Some m) \<Rightarrow> [Llm_invoked (CombinedPrompt c)] | _ \<Rightarrow> [])"
  by (simp add: get_recommendations_def Let_def initialize_llm_present calls_ask_both
      split_beta split: option.splits)

subsection \<open>The three paths of get_yield_prediction\<close>

lemma gyp_empty: "get_yield_prediction ctor st [] acres = (None, st)"
  by (simp add: get_yield_prediction_def)

lemma gyp_known:
  assumes "crop \<noteq> []" and "map_of static_yields (normalize crop) = Some y"
  shows "get_yield_prediction ctor st crop acres =
    (Some (case fst (get_price_from_llm ctor st (normalize crop)) of
        Inl e \<Rightarrow> error_prediction (normalize crop) acres (str_exn e)
      | Inr None \<Rightarrow> error_prediction (normalize crop) acres ''Could not determine price''
      | Inr (Some p) \<Rightarrow> full_prediction (normalize crop) acres y p),
     snd (get_price_from_llm ctor st (normalize crop)))"
  using assms
  by (simp add: get_yield_prediction_def Let_def split: prod.splits sum.splits option.splits)

lemma gyp_unknown:
  assumes "crop \<noteq> []" and "map_of static_yields (normalize crop) = None"
  shows "get_yield_prediction ctor st crop acres =
    (Some (case fst (get_recommendations ctor st (normalize crop)) of
        Inl e \<Rightarrow> error_prediction (normalize crop) acres (str_exn e)
      | Inr (Some y, Some p) \<Rightarrow> full_prediction (normalize crop) acres y p
      | Inr _ \<Rightarrow> error_prediction (normalize crop) acres ''Could not determine yield or price''),
     snd (get_recommendations ctor st (normalize crop)))"
  using assms
  by (simp add: get_yield_prediction_def Let_def split: prod.splits sum.splits option.splits)

lemma keys_error_prediction:
  "map fst (error_prediction c a m) = [''crop'', ''acres'', ''error'']"
  by (simp add: error_prediction_def)

lemma keys_full_prediction:
  "map fst (full_prediction c a y p) = [''crop'', ''acres'', ''yield_per_acre'',
     ''expected_yield'', ''price_per_kg'', ''total_income'', ''unit'']"
  by (simp add: full_prediction_def Let_def)

lemma gyp_keys:
  assumes "crop \<noteq> []"
  shows "\<exists>d. fst (get_yield_prediction ctor st crop acres) = Some d \<and>
     (map fst d = [''crop'', ''acres'', ''error''] \<or>
      map fst d = [''crop'', ''acres'', ''yield_per_acre'',
        ''expected_yield'', ''price_per_kg'', ''total_income'', ''unit''])"
proof (cases "map_of static_yields (normalize crop)")
  case None
  show ?thesis
    unfolding gyp_unknown [OF assms None]
    by (simp add: keys_error_prediction keys_full_prediction
        split: sum.splits option.splits prod.splits)
next
  case (Some y)
  show ?thesis
    unfolding gyp_known [OF assms Some]
    by (simp add: keys_error_prediction keys_full_prediction
        split: sum.splits option.splits prod.splits)
qed

lemma static_yields_no_empty_name: "map_of static_yields [] = None"
  by (simp add: static_yields_def static_yields_hectare_def)

lemma static_per_acre:
  "map_of static_yields c = Some y \<Longrightarrow>
   \<exists>h. map_of static_yields_hectare c = Some h \<and> y = Fin (h / 2.47105)"
  by (auto simp: static_yields_def map_of_map)

subsection \<open>Labels that a response does not carry\<close>

lemma parse_lines_keeps_yield:
  "\<not> (\<exists>l \<in> set ls. startswith l ''Yield:'') \<Longrightarrow>
   parse_lines ls (y, p) = Some (y', p') \<Longrightarrow> y' = y"
  by (induction ls arbitrary: p) (auto split: if_splits option.splits)

lemma parse_lines_keeps_price:
  "\<not> (\<exists>l \<in> set ls. startswith l ''Price:'') \<Longrightarrow>
   parse_lines ls (y, p) = Some (y', p') \<Longrightarrow> p' = p"
  by (induction ls arbitrary: y) (auto split: if_splits option.splits)

lemma parse_response_no_yield:
  assumes "\<not> (\<exists>l \<in> set (split_on newline (strip r)). startswith l ''Yield:'')"
  shows "fst (parse_response r) = None"
proof (cases "parse_lines (split_on newline (strip r)) (None, None)")
  case None
  then show ?thesis by (simp add: parse_response_def)
next
  case (Some yp)
  obtain y' p' where yp: "yp = (y', p')" by (cases yp)
  from parse_lines_keeps_yield [OF assms Some [unfolded yp]] Some yp
  show ?thesis by (simp add: parse_response_def)
qed

lemma parse_response_no_price:
  assumes "\<not> (\<exists>l \<in> set (split_on newline (strip r)). startswith l ''Price:'')"
  shows "snd (parse_response r) = None"
proof (cases "parse_lines (split_on newline (strip r)) (None, None)")
  case None
  then show ?thesis by (simp add: parse_response_def)
next
  case (Some yp)
  obtain y' p' where yp: "yp = (y', p')" by (cases yp)
  from parse_lines_keeps_price [OF assms Some [unfolded yp]] Some yp
  show ?thesis by (simp add: parse_response_def)
qed

lemma get_recommendations_loaded:
  assumes "llm st = Some (Some m)" and "m (CombinedPrompt c) = Inr reply"
  shows "fst (get_recommendations ctor st c) = Inr (parse_response (strip reply))"
  using assms by (simp add: get_recommendations_def ask_both_def Let_def)

subsection \<open>What the two model paths return\<close>

lemma fst_get_price_from_llm:
  "fst (get_price_from_llm ctor st c) = (case llm st of
       None \<Rightarrow> Inl AttributeError
     | Some None \<Rightarrow> Inr None
     | Some (Some m) \<Rightarrow> Inr (case m (PricePrompt c) of
          Inl e \<Rightarrow> None
        | Inr reply \<Rightarrow>
            (case search_price (strip reply) of None \<Rightarrow> None | Some g \<Rightarrow> py_float g)))"
  by (simp add: get_price_from_llm_def ask_price_def Let_def initialize_llm_present
      split: option.splits sum.splits)

lemma fst_get_recommendations:
  "fst (get_recommendations ctor st c) = (case llm st of
       None \<Rightarrow> Inl AttributeError
     | Some None \<Rightarrow> Inr (None, None)
     | Some (Some m) \<Rightarrow> Inr (case m (CombinedPrompt c) of
          Inl e \<Rightarrow> (None, None)
        | Inr reply \<Rightarrow> parse_response (strip reply)))"
  by (simp add: get_recommendations_def ask_both_def Let_def initialize_llm_present
      split: option.splits sum.splits)

text \<open>
  Normalizing twice is normalizing once, so a name and its normalized form are looked up
  under the same key of the table.
\<close>

lemma lookup_after_normalize:
  "map_of static_yields (normalize (normalize crop)) = map_of static_yields (normalize crop)"
  by (simp only: normalize_idem)

subsection \<open>Evaluations\<close>

lemma normalize_wheat: "normalize '' Wheat '' = ''wheat''"
  by code_simp

lemma normalize_mango: "normalize ''mango'' = ''mango''"
  by code_simp


lemma static_yields_wheat: "map_of static_yields ''wheat'' = Some (Fin (3615 / 2.47105))"
  by (simp add: static_yields_def static_yields_hectare_def)

lemma static_yields_mango: "map_of static_yields ''mango'' = None"
  by (simp add: static_yields_def static_yields_hectare_def)

lemma parse_yield_only: "parse_response (strip ''Yield: 100'') = (Some (Fin 100), None)"
  by code_simp

lemma lines_yield_only: "split_on newline (strip ''Yield: 100'') = [''Yield: 100'']"
  by code_simp

lemma price_22:
  "(case search_price (strip ''Price: 22'') of None \<Rightarrow> None | Some g \<Rightarrow> py_float g) =
     Some (Fin 22)"
  by code_simp

lemma parse_two_lines:
  "parse_response (strip two_line_reply) = (Some (Fin 100), Some (Fin 5))"
  by code_simp

section \<open>Properties of the profit dashboard\<close>

lemma collect_rows_filter:
  "collect_rows inp rows acc = acc @ map (row_expense inp)
      (filter (\<lambda>i. row_category inp i \<noteq> [] \<and> 0 < row_amount inp i) rows)"
  by (induction rows arbitrary: acc) auto

lemma collect_rows_positive:
  "\<forall>e \<in> set (collect_rows inp rows []). 0 < amount e"
  by (auto simp: collect_rows_filter row_expense_def)

lemma filter_removeAll_skipped:
  "\<not> P i \<Longrightarrow> filter P (removeAll i xs) = filter P xs"
  by (induction xs) auto

lemma the_expenses_initialize: "the_expenses (initialize_dashboard st) = the_expenses st"
  by (simp add: initialize_dashboard_def the_expenses_def split: option.splits)

lemma the_expenses_add_category: "the_expenses (fst (add_category inp st)) = the_expenses st"
  by (simp add: add_category_def the_expenses_def)

lemma expense_form_positive:
  "\<forall>e \<in> set (the_expenses st). 0 < amount e \<Longrightarrow>
   \<forall>e \<in> set (the_expenses (fst (expense_form inp st))). 0 < amount e"
  using collect_rows_positive [of inp "[0..<5]"]
  by (auto simp: expense_form_def Let_def the_expenses_def)

lemma render_expenses:
  "the_expenses (fst (render_profit_dashboard_tab inp st)) = [] \<or>
   the_expenses (fst (render_profit_dashboard_tab inp st)) =
     the_expenses (fst (expense_form inp (fst (add_category inp (initialize_dashboard st)))))"
  by (auto simp: render_profit_dashboard_tab_def Let_def split_beta the_expenses_def
      split: sum.splits)

lemma render_positive:
  assumes "\<forall>e \<in> set (the_expenses st). 0 < amount e"
  shows "\<forall>e \<in> set (the_expenses (fst (render_profit_dashboard_tab inp st))). 0 < amount e"
proof -
  have "\<forall>e \<in> set (the_expenses
      (fst (expense_form inp (fst (add_category inp (initialize_dashboard st)))))). 0 < amount e"
    using assms
    by (intro expense_form_positive) (simp add: the_expenses_add_category the_expenses_initialize)
  with render_expenses [of inp st] show ?thesis by auto
qed

lemma run_session_positive:
  "\<forall>e \<in> set (the_expenses st). 0 < amount e \<Longrightarrow>
   \<forall>e \<in> set (the_expenses (run_session inps st)). 0 < amount e"
proof (induction inps arbitrary: st)
  case Nil
  then show ?case by simp
next
  case (Cons inp inps)
  have "\<forall>e \<in> set (the_expenses (fst (render_profit_dashboard_tab inp st))). 0 < amount e"
    using Cons.prems by (rule render_positive)
  then show ?case using Cons.IH by simp
qed

lemma margin_total: "\<exists>m. compute_profit_margin p r = Inr m \<and> (\<not> 0 < r \<longrightarrow> m = 0)"
  by (simp add: compute_profit_margin_def truediv_def)

lemma metrics_total:
  "\<exists>ms. compute_metrics es r = Inr ms \<and> (\<not> 0 < r \<longrightarrow> profit_margin ms = 0)"
  by (simp add: compute_metrics_def compute_profit_margin_def truediv_def Let_def)

lemma render_no_exception: "snd (snd (render_profit_dashboard_tab inp st)) \<noteq> Some (Inl e)"
proof -
  obtain ms where "compute_metrics
      (the_expenses (fst (expense_form inp (fst (add_category inp (initialize_dashboard st))))))
      (total_yield inp) = Inr ms"
    using metrics_total by blast
  then show ?thesis
    by (simp add: render_profit_dashboard_tab_def Let_def split_beta)
qed

lemma example_session_amounts:
  "map amount (the_expenses (run_session [example_inputs] fresh_session)) = [100, 200, 50]"
  by code_simp

section \<open>The claims about the yield advisor\<close>

text \<open>
  Claim C1. When the crop name, lowercased and stripped, is in the static yield table,
  \<open>get_yield_prediction\<close> enters \<open>get_price_from_llm\<close> and nothing else: the calls it
  adds to the record are that entry and, when a model is loaded, one invocation with the
  price prompt; \<open>get_recommendations\<close> is not entered and the combined prompt is not
  sent. The yield it uses is the table's per-hectare value divided by 2.47105. The
  returned dictionary is fixed by the table and by what the model answers to the price
  prompt alone: it is the full prediction on the table's yield and the price read from
  that answer, and the error \<open>Could not determine price\<close> when no price can be read.
  Whenever the price path gives a price, the dictionary is the full prediction and its
  \<open>yield_per_acre\<close> is the table's value.
\<close>

theorem known_crop_uses_static_yield:
  assumes "map_of static_yields (normalize crop) = Some y"
  shows "calls (snd (get_yield_prediction ctor st crop acres)) =
       calls st @ Enter_get_price_from_llm (normalize crop) #
         (case llm st of Some (Some m) \<Rightarrow> [Llm_invoked (PricePrompt (normalize crop))]
          | _ \<Rightarrow> [])
    \<and> (\<forall>c. Enter_get_recommendations c \<notin>
          set (drop (length (calls st)) (calls (snd (get_yield_prediction ctor st crop acres)))))
    \<and> (\<forall>c. Llm_invoked (CombinedPrompt c) \<notin>
          set (drop (length (calls st)) (calls (snd (get_yield_prediction ctor st crop acres)))))
    \<and> (\<exists>h. map_of static_yields_hectare (normalize crop) = Some h \<and> y = Fin (h / 2.47105))
    \<and> fst (get_yield_prediction ctor st crop acres) =
       Some (case llm st of
           None \<Rightarrow> error_prediction (normalize crop) acres (str_exn AttributeError)
         | Some None \<Rightarrow> error_prediction (normalize crop) acres ''Could not determine price''
         | Some (Some m) \<Rightarrow> (case m (PricePrompt (normalize crop)) of
              Inl e \<Rightarrow> error_prediction (normalize crop) acres ''Could not determine price''
            | Inr reply \<Rightarrow> (case search_price (strip reply) of
                 None \<Rightarrow> error_prediction (normalize crop) acres ''Could not determine price''
               | Some g \<Rightarrow> (case py_float g of
                    None \<Rightarrow>
                      error_prediction (normalize crop) acres ''Could not determine price''
                  | Some p \<Rightarrow> full_prediction (normalize crop) acres y p))))
    \<and> (\<forall>p. fst (get_price_from_llm ctor st (normalize crop)) = Inr (Some p) \<longrightarrow>
          fst (get_yield_prediction ctor st crop acres) =
            Some (full_prediction (normalize crop) acres y p) \<and>
          map_of (full_prediction (normalize crop) acres y p) ''yield_per_acre'' =
            Some (VFloat y))"
proof -
  have ne: "crop \<noteq> []"
    using assms static_yields_no_empty_name normalize_Nil by auto
  note g = gyp_known [OF ne assms]
  have a: "calls (snd (get_yield_prediction ctor st crop acres)) =
       calls st @ Enter_get_price_from_llm (normalize crop) #
         (case llm st of Some (Some m) \<Rightarrow> [Llm_invoked (PricePrompt (normalize crop))]
          | _ \<Rightarrow> [])"
    by (simp add: g calls_get_price_from_llm)
  have b: "\<forall>c. Enter_get_recommendations c \<notin>
      set (drop (length (calls st)) (calls (snd (get_yield_prediction ctor st crop acres))))"
    unfolding a by (simp split: option.splits)
  have c: "\<forall>c. Llm_invoked (CombinedPrompt c) \<notin>
      set (drop (length (calls st)) (calls (snd (get_yield_prediction ctor st crop acres))))"
    unfolding a by (simp split: option.splits)
  have d: "fst (get_yield_prediction ctor st crop acres) =
       Some (case llm st of
           None \<Rightarrow> error_prediction (normalize crop) acres (str_exn AttributeError)
         | Some None \<Rightarrow> error_prediction (normalize crop) acres ''Could not determine price''
         | Some (Some m) \<Rightarrow> (case m (PricePrompt (normalize crop)) of
              Inl e \<Rightarrow> error_prediction (normalize crop) acres ''Could not determine price''
            | Inr reply \<Rightarrow> (case search_price (strip reply) of
                 None \<Rightarrow> error_prediction (normalize crop) acres ''Could not determine price''
               | Some g \<Rightarrow> (case py_float g of
                    None \<Rightarrow>
                      error_prediction (normalize crop) acres ''Could not determine price''
                  | Some p \<Rightarrow> full_prediction (normalize crop) acres y p))))"
    by (simp add: g fst_get_price_from_llm split: option.splits sum.splits)
  have e: "\<forall>p. fst (get_price_from_llm ctor st (normalize crop)) = Inr (Some p) \<longrightarrow>
          fst (get_yield_prediction ctor st crop acres) =
            Some (full_prediction (normalize crop) acres y p) \<and>
          map_of (full_prediction (normalize crop) acres y p) ''yield_per_acre'' =
            Some (VFloat y)"
    by (simp add: g full_prediction_def Let_def)
  show ?thesis by (intro conjI a b c d e static_per_acre [OF assms])
qed

theorem known_crop_uses_static_yield_witness:
  "map_of static_yields (normalize '' Wheat '') = Some (Fin (3615 / 2.47105)) \<and>
   fst (get_price_from_llm load_failure (session_replying ''Price: 22'')
       (normalize '' Wheat '')) = Inr (Some (Fin 22)) \<and>
   fst (get_yield_prediction load_failure (session_replying ''Price: 22'')
       '' Wheat '' (Fin 2)) =
     Some (full_prediction ''wheat'' (Fin 2) (Fin (3615 / 2.47105)) (Fin 22)) \<and>
   map_of (full_prediction ''wheat'' (Fin 2) (Fin (3615 / 2.47105)) (Fin 22))
       ''yield_per_acre'' = Some (VFloat (Fin (3615 / 2.47105))) \<and>
   calls (snd (get_yield_prediction load_failure (session_replying ''Price: 22'')
       '' Wheat '' (Fin 2))) =
     [Enter_get_price_from_llm ''wheat'', Llm_invoked (PricePrompt ''wheat'')]"
proof -
  have h: "map_of static_yields (normalize '' Wheat '') = Some (Fin (3615 / 2.47105))"
    by (simp only: normalize_wheat static_yields_wheat)
  have hp: "fst (get_price_from_llm load_failure (session_replying ''Price: 22'')
       (normalize '' Wheat '')) = Inr (Some (Fin 22))"
    by (simp add: fst_get_price_from_llm session_replying_def llm_replying_def price_22)
  note t = known_crop_uses_static_yield
    [OF h, of load_failure "session_replying ''Price: 22''" "Fin 2"]
  note t6 = t [THEN conjunct2, THEN conjunct2, THEN conjunct2, THEN conjunct2, THEN conjunct2,
      rule_format, OF hp]
  have r: "fst (get_yield_prediction load_failure (session_replying ''Price: 22'')
       '' Wheat '' (Fin 2)) =
     Some (full_prediction ''wheat'' (Fin 2) (Fin (3615 / 2.47105)) (Fin 22))"
    using t6 [THEN conjunct1] by (simp only: normalize_wheat)
  have k: "map_of (full_prediction ''wheat'' (Fin 2) (Fin (3615 / 2.47105)) (Fin 22))
       ''yield_per_acre'' = Some (VFloat (Fin (3615 / 2.47105)))"
    using t6 [THEN conjunct2] by (simp only: normalize_wheat)
  have c: "calls (snd (get_yield_prediction load_failure (session_replying ''Price: 22'')
       '' Wheat '' (Fin 2))) =
     [Enter_get_price_from_llm ''wheat'', Llm_invoked (PricePrompt ''wheat'')]"
    using t [THEN conjunct1] by (simp add: normalize_wheat session_replying_def)
  show ?thesis by (intro conjI h hp r k c)
qed

text \<open>
  Two inputs at which the claim about unknown crops fails. A response with a \<open>Yield:\<close>
  line and no \<open>Price:\<close> line: \<open>parse_response\<close>, and \<open>get_recommendations\<close> with it,
  return the yield together with \<open>None\<close> for the price. The empty crop name, which is
  not in the table: \<open>get_yield_prediction\<close> returns \<open>None\<close> and makes no call.
\<close>

theorem partial_parse_counterexample:
  "parse_response ''Yield: 100'' = (Some (Fin 100), None) \<and>
   fst (get_recommendations load_failure (session_replying ''Yield: 100'') ''mango'') =
     Inr (Some (Fin 100), None) \<and>
   map_of static_yields [] = None \<and>
   get_yield_prediction load_failure (session_replying ''Yield: 100'') [] (Fin 2) =
     (None, session_replying ''Yield: 100'')"
proof (intro conjI)
  show "parse_response ''Yield: 100'' = (Some (Fin 100), None)"
    by code_simp
  have "fst (get_recommendations load_failure (session_replying ''Yield: 100'') ''mango'') =
      Inr (parse_response (strip ''Yield: 100''))"
    by (rule get_recommendations_loaded [where m = "llm_replying ''Yield: 100''"])
       (simp_all add: session_replying_def llm_replying_def)
  then show "fst (get_recommendations load_failure (session_replying ''Yield: 100'') ''mango'') =
      Inr (Some (Fin 100), None)"
    by (simp only: parse_yield_only)
  show "map_of static_yields [] = None"
    by (rule static_yields_no_empty_name)
  show "get_yield_prediction load_failure (session_replying ''Yield: 100'') [] (Fin 2) =
     (None, session_replying ''Yield: 100'')"
    by (rule gyp_empty)
qed

text \<open>
  Claim C2, amended. For a non-empty crop name whose lowercased and stripped form is not
  in the static yield table, \<open>get_yield_prediction\<close> enters \<open>get_recommendations\<close> and
  nothing else, a loaded model is invoked once, with the combined prompt, and the returned
  dictionary is fixed by the answer to that one prompt: the full prediction on the yield
  and the price that \<open>parse_response\<close> reads from it when it reads both, and the error
  \<open>Could not determine yield or price\<close> otherwise. When the answer has no line starting
  with \<open>Yield:\<close> the parsed yield is \<open>None\<close>, and when it has no line starting with
  \<open>Price:\<close> the parsed price is \<open>None\<close>; the other value of the pair may be a number.
  In both cases \<open>get_yield_prediction\<close> returns the error dictionary, which carries no
  yield, price or income.
\<close>

theorem unknown_crop_missing_line_undetermined:
  assumes "crop \<noteq> []" and "map_of static_yields (normalize crop) = None"
  shows "calls (snd (get_yield_prediction ctor st crop acres)) =
       calls st @ Enter_get_recommendations (normalize crop) #
         (case llm st of Some (Some m) \<Rightarrow> [Llm_invoked (CombinedPrompt (normalize crop))]
          | _ \<Rightarrow> [])
    \<and> fst (get_yield_prediction ctor st crop acres) =
       Some (case llm st of
           None \<Rightarrow> error_prediction (normalize crop) acres (str_exn AttributeError)
         | Some None \<Rightarrow>
             error_prediction (normalize crop) acres ''Could not determine yield or price''
         | Some (Some m) \<Rightarrow> (case m (CombinedPrompt (normalize crop)) of
              Inl e \<Rightarrow>
                error_prediction (normalize crop) acres ''Could not determine yield or price''
            | Inr reply \<Rightarrow> (case parse_response (strip reply) of
                 (Some yield_per_acre, Some price_per_kg) \<Rightarrow>
                   full_prediction (normalize crop) acres yield_per_acre price_per_kg
               | _ \<Rightarrow>
                   error_prediction (normalize crop) acres
                     ''Could not determine yield or price'')))
    \<and> (\<forall>reply.
          (\<not> (\<exists>l \<in> set (split_on newline (strip reply)). startswith l ''Yield:'') \<longrightarrow>
             fst (parse_response (strip reply)) = None) \<and>
          (\<not> (\<exists>l \<in> set (split_on newline (strip reply)). startswith l ''Price:'') \<longrightarrow>
             snd (parse_response (strip reply)) = None))
    \<and> (\<forall>m reply. llm st = Some (Some m) \<longrightarrow>
          m (CombinedPrompt (normalize crop)) = Inr reply \<longrightarrow>
          (\<not> (\<exists>l \<in> set (split_on newline (strip reply)). startswith l ''Yield:'') \<or>
           \<not> (\<exists>l \<in> set (split_on newline (strip reply)). startswith l ''Price:'')) \<longrightarrow>
          fst (get_yield_prediction ctor st crop acres) =
            Some [(''crop'', VStr (normalize crop)), (''acres'', VFloat acres),
                  (''error'', VStr ''Could not determine yield or price'')])"
proof (intro conjI)
  note g = gyp_unknown [OF assms]
  show "calls (snd (get_yield_prediction ctor st crop acres)) =
       calls st @ Enter_get_recommendations (normalize crop) #
         (case llm st of Some (Some m) \<Rightarrow> [Llm_invoked (CombinedPrompt (normalize crop))]
          | _ \<Rightarrow> [])"
    by (simp add: g calls_get_recommendations)
  show "fst (get_yield_prediction ctor st crop acres) =
       Some (case llm st of
           None \<Rightarrow> error_prediction (normalize crop) acres (str_exn AttributeError)
         | Some None \<Rightarrow>
             error_prediction (normalize crop) acres ''Could not determine yield or price''
         | Some (Some m) \<Rightarrow> (case m (CombinedPrompt (normalize crop)) of
              Inl e \<Rightarrow>
                error_prediction (normalize crop) acres ''Could not determine yield or price''
            | Inr reply \<Rightarrow> (case parse_response (strip reply) of
                 (Some yield_per_acre, Some price_per_kg) \<Rightarrow>
                   full_prediction (normalize crop) acres yield_per_acre price_per_kg
               | _ \<Rightarrow>
                   error_prediction (normalize crop) acres
                     ''Could not determine yield or price'')))"
    by (simp add: g fst_get_recommendations split: option.splits sum.splits prod.splits)
  show "\<forall>reply.
          (\<not> (\<exists>l \<in> set (split_on newline (strip reply)). startswith l ''Yield:'') \<longrightarrow>
             fst (parse_response (strip reply)) = None) \<and>
          (\<not> (\<exists>l \<in> set (split_on newline (strip reply)). startswith l ''Price:'') \<longrightarrow>
             snd (parse_response (strip reply)) = None)"
  proof (intro allI conjI impI)
    fix reply
    assume "\<not> (\<exists>l \<in> set (split_on newline (strip reply)). startswith l ''Yield:'')"
    then show "fst (parse_response (strip reply)) = None"
      using parse_response_no_yield [of "strip reply"] unfolding strip_idem by simp
  next
    fix reply
    assume "\<not> (\<exists>l \<in> set (split_on newline (strip reply)). startswith l ''Price:'')"
    then show "snd (parse_response (strip reply)) = None"
      using parse_response_no_price [of "strip reply"] unfolding strip_idem by simp
  qed
  show "\<forall>m reply. llm st = Some (Some m) \<longrightarrow>
          m (CombinedPrompt (normalize crop)) = Inr reply \<longrightarrow>
          (\<not> (\<exists>l \<in> set (split_on newline (strip reply)). startswith l ''Yield:'') \<or>
           \<not> (\<exists>l \<in> set (split_on newline (strip reply)). startswith l ''Price:'')) \<longrightarrow>
          fst (get_yield_prediction ctor st crop acres) =
            Some [(''crop'', VStr (normalize crop)), (''acres'', VFloat acres),
                  (''error'', VStr ''Could not determine yield or price'')]"
  proof (intro allI impI)
    fix m reply
    assume l: "llm st = Some (Some m)" and r: "m (CombinedPrompt (normalize crop)) = Inr reply"
      and miss: "\<not> (\<exists>l \<in> set (split_on newline (strip reply)). startswith l ''Yield:'') \<or>
           \<not> (\<exists>l \<in> set (split_on newline (strip reply)). startswith l ''Price:'')"
    have rec: "fst (get_recommendations ctor st (normalize crop)) =
        Inr (parse_response (strip reply))"
      using l r by (rule get_recommendations_loaded)
    from miss
    have "fst (parse_response (strip reply)) = None \<or> snd (parse_response (strip reply)) = None"
      using parse_response_no_yield [of "strip reply"] parse_response_no_price [of "strip reply"]
      unfolding strip_idem by (elim disjE) simp_all
    then have "(case parse_response (strip reply) of
        (Some y, Some p) \<Rightarrow> full_prediction (normalize crop) acres y p
      | _ \<Rightarrow> error_prediction (normalize crop) acres ''Could not determine yield or price'')
      = error_prediction (normalize crop) acres ''Could not determine yield or price''"
      by (cases "parse_response (strip reply)") (auto split: option.splits)
    then show "fst (get_yield_prediction ctor st crop acres) =
              Some [(''crop'', VStr (normalize crop)), (''acres'', VFloat acres),
                    (''error'', VStr ''Could not determine yield or price'')]"
      by (simp add: g rec error_prediction_def)
  qed
qed

theorem unknown_crop_missing_line_undetermined_witness:
  "''mango'' \<noteq> [] \<and> map_of static_yields (normalize ''mango'') = None \<and>
   llm (session_replying ''Yield: 100'') = Some (Some (llm_replying ''Yield: 100'')) \<and>
   llm_replying ''Yield: 100'' (CombinedPrompt (normalize ''mango'')) = Inr ''Yield: 100'' \<and>
   \<not> (\<exists>l \<in> set (split_on newline (strip ''Yield: 100'')). startswith l ''Price:'') \<and>
   snd (parse_response (strip ''Yield: 100'')) = None \<and>
   fst (get_yield_prediction load_failure (session_replying ''Yield: 100'') ''mango'' (Fin 2)) =
     Some [(''crop'', VStr ''mango''), (''acres'', VFloat (Fin 2)),
           (''error'', VStr ''Could not determine yield or price'')] \<and>
   calls (snd (get_yield_prediction load_failure (session_replying ''Yield: 100'')
       ''mango'' (Fin 2))) =
     [Enter_get_recommendations ''mango'', Llm_invoked (CombinedPrompt ''mango'')] \<and>
   fst (get_yield_prediction load_failure (session_replying two_line_reply) ''mango'' (Fin 2)) =
     Some (full_prediction ''mango'' (Fin 2) (Fin 100) (Fin 5))"
proof -
  have h1: "''mango'' \<noteq> []" by simp
  have h2: "map_of static_yields (normalize ''mango'') = None"
    by (simp only: normalize_mango static_yields_mango)
  have h3: "llm (session_replying ''Yield: 100'') = Some (Some (llm_replying ''Yield: 100''))"
    by (simp add: session_replying_def)
  have h4: "llm_replying ''Yield: 100'' (CombinedPrompt (normalize ''mango'')) = Inr ''Yield: 100''"
    by (simp add: llm_replying_def)
  have h5: "\<not> (\<exists>l \<in> set (split_on newline (strip ''Yield: 100'')). startswith l ''Price:'')"
    unfolding lines_yield_only by (simp add: startswith_def)
  note t = unknown_crop_missing_line_undetermined
    [OF h1 h2, of load_failure "session_replying ''Yield: 100''" "Fin 2"]
  note u = unknown_crop_missing_line_undetermined
    [OF h1 h2, of load_failure "session_replying two_line_reply" "Fin 2"]
  have c0: "snd (parse_response (strip ''Yield: 100'')) = None"
    using t [THEN conjunct2, THEN conjunct2, THEN conjunct1, rule_format,
        THEN conjunct2, THEN mp, OF h5] .
  have c1: "fst (get_yield_prediction load_failure (session_replying ''Yield: 100'')
        ''mango'' (Fin 2)) =
     Some [(''crop'', VStr ''mango''), (''acres'', VFloat (Fin 2)),
           (''error'', VStr ''Could not determine yield or price'')]"
    using t [THEN conjunct2, THEN conjunct2, THEN conjunct2, rule_format,
        OF h3 h4 disjI2 [OF h5]]
    by (simp only: normalize_mango)
  have c2: "calls (snd (get_yield_prediction load_failure (session_replying ''Yield: 100'')
       ''mango'' (Fin 2))) =
     [Enter_get_recommendations ''mango'', Llm_invoked (CombinedPrompt ''mango'')]"
    using t [THEN conjunct1] by (simp add: normalize_mango session_replying_def)
  have c3: "fst (get_yield_prediction load_failure (session_replying two_line_reply)
        ''mango'' (Fin 2)) =
     Some (full_prediction ''mango'' (Fin 2) (Fin 100) (Fin 5))"
    using u [THEN conjunct2, THEN conjunct1]
    by (simp add: normalize_mango session_replying_def llm_replying_def parse_two_lines)
  show ?thesis by (intro conjI h1 h2 h3 h4 h5 c0 c1 c2 c3)
qed

text \<open>
  Claim C4. For a non-empty crop name and any acreage, \<open>get_yield_prediction\<close> returns
  a dictionary, and that dictionary either has the keys \<open>yield_per_acre\<close>,
  \<open>price_per_kg\<close> and \<open>total_income\<close> and no key \<open>error\<close>, or has the key \<open>error\<close>
  and none of the three.
\<close>

theorem prediction_all_or_error:
  assumes "crop \<noteq> []"
  shows "\<exists>d. fst (get_yield_prediction ctor st crop acres) = Some d \<and>
     (({''yield_per_acre'', ''price_per_kg'', ''total_income''} \<subseteq> fst ` set d
        \<and> ''error'' \<notin> fst ` set d)
      \<or> (''error'' \<in> fst ` set d
        \<and> {''yield_per_acre'', ''price_per_kg'', ''total_income''} \<inter> fst ` set d = {}))"
proof -
  from gyp_keys [OF assms, of ctor st acres]
  obtain d where dk: "fst (get_yield_prediction ctor st crop acres) = Some d \<and>
     (map fst d = [''crop'', ''acres'', ''error''] \<or>
      map fst d = [''crop'', ''acres'', ''yield_per_acre'',
        ''expected_yield'', ''price_per_kg'', ''total_income'', ''unit''])" ..
  from dk have d: "fst (get_yield_prediction ctor st crop acres) = Some d"
    by (rule conjunct1)
  from dk have k: "map fst d = [''crop'', ''acres'', ''error''] \<or>
      map fst d = [''crop'', ''acres'', ''yield_per_acre'',
        ''expected_yield'', ''price_per_kg'', ''total_income'', ''unit'']"
    by (rule conjunct2)
  have s: "fst ` set d = set (map fst d)" by simp
  from k have ks:
    "({''yield_per_acre'', ''price_per_kg'', ''total_income''} \<subseteq> fst ` set d
        \<and> ''error'' \<notin> fst ` set d)
      \<or> (''error'' \<in> fst ` set d
        \<and> {''yield_per_acre'', ''price_per_kg'', ''total_income''} \<inter> fst ` set d = {})"
    unfolding s by (elim disjE) simp_all
  show ?thesis by (rule exI [of _ d], rule conjI, rule d, rule ks)
qed

theorem prediction_all_or_error_witness:
  "''mango'' \<noteq> [] \<and>
   (\<exists>d. fst (get_yield_prediction load_failure (session_replying ''Yield: 100'')
            ''mango'' (Fin 2)) = Some d \<and>
     (({''yield_per_acre'', ''price_per_kg'', ''total_income''} \<subseteq> fst ` set d
        \<and> ''error'' \<notin> fst ` set d)
      \<or> (''error'' \<in> fst ` set d
        \<and> {''yield_per_acre'', ''price_per_kg'', ''total_income''} \<inter> fst ` set d = {})))"
proof -
  have h: "''mango'' \<noteq> []" by simp
  from h prediction_all_or_error
    [OF h, of load_failure "session_replying ''Yield: 100''" "Fin 2"]
  show ?thesis by (rule conjI)
qed


text \<open>
  Claim C6. The table's value for wheat, 3615 kg per hectare, is stored as 3615 / 2.47105
  kg per acre, which is 1463 to the nearest unit (it differs from 1463 by less than 0.06).
\<close>

theorem wheat_yield_per_acre:
  "\<exists>v. map_of static_yields ''wheat'' = Some (Fin v) \<and> v = 3615 / 2.47105
     \<and> \<bar>v - 1463\<bar> < 6 / 100 \<and> round v = 1463"
proof -
  have b: "\<bar>(3615 / 2.47105 :: real) - 1463\<bar> < 6 / 100" by simp
  have c: "round (3615 / 2.47105 :: real) = 1463"
    by (rule round_unique') simp
  from static_yields_wheat b c show ?thesis by blast
qed

section \<open>The claims about the location resolvers\<close>

text \<open>
  Claim C3. When the input is six characters long and \<open>str.isdigit\<close> holds of it (six
  numeric characters, as the code reads them: the ASCII digits and the superscript digits),
  \<open>geocode_location\<close> sends one query, the input followed by \<open>, India\<close>, and returns
  what the service answers to that query; for every other input it sends one query, the
  input as it is, and returns what the service answers to the input.
\<close>

theorem geocode_location_query:
  "(isdigit location_input \<and> length location_input = 6 \<longrightarrow>
      geocode_location geocode location_input =
        (case geocode (location_input @ '', India'') of
           Geo_found latitude longitude address \<Rightarrow>
             (Some latitude, Some longitude, Some address)
         | Geo_none \<Rightarrow> (None, None, None)
         | Geo_raised e \<Rightarrow> (None, None, None),
         [location_input @ '', India'']))
   \<and> (\<not> (isdigit location_input \<and> length location_input = 6) \<longrightarrow>
      geocode_location geocode location_input =
        (case geocode location_input of
           Geo_found latitude longitude address \<Rightarrow>
             (Some latitude, Some longitude, Some address)
         | Geo_none \<Rightarrow> (None, None, None)
         | Geo_raised e \<Rightarrow> (None, None, None),
         [location_input]))"
  by (simp add: geocode_location_def geocode_query_def Let_def)

theorem geocode_location_query_witness:
  "isdigit ''110001'' \<and> length ''110001'' = 6 \<and>
   geocode_location example_geocoder ''110001'' =
     ((Some 28.63, Some 77.22, Some ''New Delhi, Delhi, 110001, India''),
      [''110001, India'']) \<and>
   \<not> (isdigit ''Pune'' \<and> length ''Pune'' = 6) \<and>
   geocode_location example_geocoder ''Pune'' =
     ((Some 18.52, Some 73.86, Some ''Pune, Maharashtra, India''), [''Pune''])"
proof -
  have h1: "isdigit ''110001'' \<and> length ''110001'' = 6"
    by (simp add: isdigit_def isdigit_char_def)
  have h2: "\<not> (isdigit ''Pune'' \<and> length ''Pune'' = 6)" by simp
  have c1: "geocode_location example_geocoder ''110001'' =
     ((Some 28.63, Some 77.22, Some ''New Delhi, Delhi, 110001, India''),
      [''110001, India''])"
    using geocode_location_query [of "''110001''" example_geocoder,
        THEN conjunct1, THEN mp, OF h1]
    by (simp add: example_geocoder_def)
  have c2: "geocode_location example_geocoder ''Pune'' =
     ((Some 18.52, Some 73.86, Some ''Pune, Maharashtra, India''), [''Pune''])"
    using geocode_location_query [of "''Pune''" example_geocoder,
        THEN conjunct2, THEN mp, OF h2]
    by (simp add: example_geocoder_def)
  from h1 have h1a: "isdigit ''110001''" and h1b: "length ''110001'' = 6" by simp_all
  show ?thesis by (intro conjI h1a h1b c1 h2 c2)
qed

text \<open>
  A response with status 200 whose JSON object has none of the fields: latitude and
  longitude are absent, the address is the string of two separators.
\<close>

theorem ip_lookup_missing_fields_counterexample:
  "get_location_from_ip str_unmodelled (Response 200 (Inr (JObj []))) =
     (JNull, JNull, JStr '', , '') \<and>
   get_location_from_ip str_unmodelled (Response 200 (Inr (JObj []))) \<noteq> unresolved"
  by (simp add: get_location_from_ip_def dict_get_def format_value_def unresolved_def)

text \<open>
  Claim C5, amended. \<open>get_location_from_ip\<close> returns the unresolved result, all three
  values absent, when the request raises, when the status is not 200, when decoding the
  body raises and when the body is not a JSON object; no exception leaves it. On a status
  of 200 with a JSON object, latitude and longitude are the fields \<open>lat\<close> and \<open>lon\<close>,
  each absent when the field is missing, and the address is always present: the fields
  \<open>city\<close>, \<open>regionName\<close> and \<open>country\<close> joined by \<open>, \<close>, each empty when missing.
\<close>

theorem ip_lookup_outcomes:
  "get_location_from_ip other (Transport_error e) = unresolved
   \<and> (status_code \<noteq> 200 \<longrightarrow>
        get_location_from_ip other (Response status_code body) = unresolved)
   \<and> get_location_from_ip other (Response 200 (Inl e)) = unresolved
   \<and> ((\<forall>d. j \<noteq> JObj d) \<longrightarrow> get_location_from_ip other (Response 200 (Inr j)) = unresolved)
   \<and> get_location_from_ip other (Response 200 (Inr (JObj data))) =
       (dict_get data ''lat'' JNull, dict_get data ''lon'' JNull,
        JStr (format_value other (dict_get data ''city'' (JStr [])) @ '', '' @
              format_value other (dict_get data ''regionName'' (JStr [])) @ '', '' @
              format_value other (dict_get data ''country'' (JStr []))))
   \<and> snd (snd (get_location_from_ip other (Response 200 (Inr (JObj data))))) \<noteq> JNull"
  by (cases j) (simp_all add: get_location_from_ip_def)

theorem ip_lookup_outcomes_witness:
  "(404 :: int) \<noteq> 200 \<and>
   get_location_from_ip str_unmodelled (Response 404 (Inr (JObj []))) = unresolved \<and>
   (\<forall>d. JArr [] \<noteq> JObj d) \<and>
   get_location_from_ip str_unmodelled (Response 200 (Inr (JArr []))) = unresolved"
  using ip_lookup_outcomes [where other = str_unmodelled and status_code = 404
      and body = "Inr (JObj [])" and j = "JArr []"]
  by simp

section \<open>The claims about the profit dashboard\<close>



text \<open>
  Claim C8. Every expense in the session's list, after any sequence of runs from a fresh
  session, has a strictly positive amount, hence a non-negative one. A form row without a
  category or with amount 0 is skipped: the form collects what it would collect without
  that row, and a submitted form whose rows are all of that kind leaves the session
  unchanged and shows no notice.
\<close>

theorem expense_amounts_positive:
  "(\<forall>e \<in> set (the_expenses (run_session inps fresh_session)). 0 < amount e \<and> 0 \<le> amount e)
   \<and> (row_category inp i = [] \<or> row_amount inp i = 0 \<longrightarrow>
        collect_rows inp rows [] = collect_rows inp (removeAll i rows) [])
   \<and> ((\<forall>k < 5. row_category blank k = [] \<or> row_amount blank k = 0) \<longrightarrow>
        expense_form blank st = (st, []))"
proof (intro conjI)
  have "\<forall>e \<in> set (the_expenses fresh_session). 0 < amount e"
    by (simp add: fresh_session_def the_expenses_def)
  then have "\<forall>e \<in> set (the_expenses (run_session inps fresh_session)). 0 < amount e"
    by (rule run_session_positive)
  then show "\<forall>e \<in> set (the_expenses (run_session inps fresh_session)).
      0 < amount e \<and> 0 \<le> amount e"
    by auto
next
  show "row_category inp i = [] \<or> row_amount inp i = 0 \<longrightarrow>
        collect_rows inp rows [] = collect_rows inp (removeAll i rows) []"
  proof
    assume "row_category inp i = [] \<or> row_amount inp i = 0"
    then have "\<not> (row_category inp i \<noteq> [] \<and> 0 < row_amount inp i)" by auto
    then have "filter (\<lambda>i. row_category inp i \<noteq> [] \<and> 0 < row_amount inp i) (removeAll i rows) =
        filter (\<lambda>i. row_category inp i \<noteq> [] \<and> 0 < row_amount inp i) rows"
      by (rule filter_removeAll_skipped)
    then show "collect_rows inp rows [] = collect_rows inp (removeAll i rows) []"
      by (simp only: collect_rows_filter)
  qed
next
  show "(\<forall>k < 5. row_category blank k = [] \<or> row_amount blank k = 0) \<longrightarrow>
      expense_form blank st = (st, [])"
  proof
    assume a: "\<forall>k < 5. row_category blank k = [] \<or> row_amount blank k = 0"
    have "filter (\<lambda>i. row_category blank i \<noteq> [] \<and> 0 < row_amount blank i) [0..<5] = []"
      using a by (auto simp: filter_empty_conv)
    then have "collect_rows blank [0..<5] [] = []"
      by (simp only: collect_rows_filter append_Nil list.map)
    then show "expense_form blank st = (st, [])"
      by (simp add: expense_form_def)
  qed
qed

theorem expense_amounts_positive_witness:
  "the_expenses (run_session [example_inputs] fresh_session) \<noteq> [] \<and>
   list_all (\<lambda>e. 0 < amount e \<and> 0 \<le> amount e)
     (the_expenses (run_session [example_inputs] fresh_session)) \<and>
   (row_category example_inputs 1 = [] \<or> row_amount example_inputs 1 = 0) \<and>
   collect_rows example_inputs [0..<5] [] =
     collect_rows example_inputs (removeAll 1 [0..<5]) [] \<and>
   list_all (\<lambda>k. row_category blank_inputs k = [] \<or> row_amount blank_inputs k = 0) [0..<5] \<and>
   expense_form blank_inputs fresh_session = (fresh_session, [])"
proof -
  note t = expense_amounts_positive [of "[example_inputs]" example_inputs 1 "[0..<5]"
      blank_inputs fresh_session]
  have h0: "the_expenses (run_session [example_inputs] fresh_session) \<noteq> []"
    using example_session_amounts by auto
  have h1: "row_category example_inputs 1 = [] \<or> row_amount example_inputs 1 = 0"
    by (simp add: example_inputs_def)
  have h2: "\<forall>k < 5. row_category blank_inputs k = [] \<or> row_amount blank_inputs k = 0"
    by (simp add: blank_inputs_def)
  have h2': "list_all (\<lambda>k. row_category blank_inputs k = [] \<or> row_amount blank_inputs k = 0)
      [0..<5]"
    using h2 by (simp add: list_all_iff)
  have c0: "list_all (\<lambda>e. 0 < amount e \<and> 0 \<le> amount e)
     (the_expenses (run_session [example_inputs] fresh_session))"
    using t [THEN conjunct1] by (simp only: list_all_iff)
  note c1 = t [THEN conjunct2, THEN conjunct1, THEN mp, OF h1]
  note c2 = t [THEN conjunct2, THEN conjunct2, THEN mp, OF h2]
  show ?thesis by (intro conjI h0 h1 h2' c0 c1 c2)
qed

text \<open>
  Claim C10. The profit margin is never computed by a division by zero: the computation
  returns a value for every expense list and every revenue, the value is 0 whenever the
  revenue is not strictly positive, and a run of the dashboard never ends in an exception.
\<close>

theorem profit_margin_division_safe:
  "(\<exists>m. compute_profit_margin p r = Inr m \<and> (\<not> 0 < r \<longrightarrow> m = 0))
   \<and> (\<exists>ms. compute_metrics es r = Inr ms \<and> (\<not> 0 < r \<longrightarrow> profit_margin ms = 0))
   \<and> (\<forall>e. snd (snd (render_profit_dashboard_tab inp st)) \<noteq> Some (Inl e))"
  by (intro conjI allI margin_total metrics_total render_no_exception)

theorem profit_margin_division_safe_witness:
  "\<not> 0 < (0 :: real) \<and> compute_profit_margin (- 350) 0 = Inr 0"
  using profit_margin_division_safe [of "- 350" 0]
  by auto

end
